theory Spec2Isabelle
  imports Complex_Main "HOL-Library.List_Lexorder" "HOL-Library.Char_ord"
    "HOL-Library.Product_Lexorder" "HOL-Library.Sublist"
begin

section \<open>Shared vocabulary\<close>

text \<open>
  The pipeline of \<^verbatim>\<open>etl_script.py\<close>. Python floats are idealised as \<^typ>\<open>real\<close>
  (no rounding, no NaN other than the explicit null \<^const>\<open>None\<close>), date strings
  (\<^verbatim>\<open>YYYY-MM-DD\<close>) are \<^typ>\<open>string\<close> with Python's lexicographic comparison, and a
  raised exception is the \<^const>\<open>Inl\<close> branch of a sum.
\<close>

datatype error =
    ValueError
  | KeyError
  | IndexError
  | JSONDecodeError
  | HTTPError
  | ConnectionError
  | SourceError string

text \<open>Python's \<^verbatim>\<open>min\<close> and \<^verbatim>\<open>max\<close> of a sequence: \<^verbatim>\<open>ValueError\<close> on an empty one.\<close>

definition py_min :: "string list \<Rightarrow> error + string" where
  "py_min xs = (case xs of [] \<Rightarrow> Inl ValueError | y # ys \<Rightarrow> Inr (fold min ys y))"

definition py_max :: "string list \<Rightarrow> error + string" where
  "py_max xs = (case xs of [] \<Rightarrow> Inl ValueError | y # ys \<Rightarrow> Inr (fold max ys y))"

section \<open>Market Series Fetcher: \<^verbatim>\<open>batch_fetch_sp500\<close>\<close>

text \<open>
  The data source is a parameter. \<open>strptime\<close> is
  \<^verbatim>\<open>datetime.strptime(_, "%Y-%m-%d")\<close> as a day number (it raises on a string that is
  not a date), and \<open>history start end\<close> is \<^verbatim>\<open>sp500.history(start=, end=, interval='1d')\<close>:
  it raises, or returns the rows of the frame, each the index already formatted by
  \<^verbatim>\<open>strftime("%Y-%m-%d")\<close> with its \<^verbatim>\<open>Close\<close>.
\<close>

type_synonym market_source = "string \<Rightarrow> int \<Rightarrow> error + (string \<times> real) list"

text \<open>\<^verbatim>\<open>history['Close'].to_dict()\<close>: a later row of the same index overwrites an earlier one.\<close>

definition to_dict :: "(string \<times> real) list \<Rightarrow> (string \<rightharpoonup> real)" where
  "to_dict rows = map_of (rev rows)"

text \<open>
  The loop of lines 205 to 210, over \<open>dates\<close> in the order given. The result dictionary
  holds \<^verbatim>\<open>None\<close> as a value: \<open>Some None\<close> is a key whose price is null, \<open>None\<close> is
  no key.
\<close>

fun fill_prices ::
  "(string \<rightharpoonup> real) \<Rightarrow> string list \<Rightarrow> real option \<Rightarrow> (string \<rightharpoonup> real option)
    \<Rightarrow> (string \<rightharpoonup> real option)" where
  "fill_prices sp500_data [] last_price date_price_map = date_price_map"
| "fill_prices sp500_data (date # dates) last_price date_price_map =
     (let last_price' = (case sp500_data date of Some p \<Rightarrow> Some p | None \<Rightarrow> last_price)
      in fill_prices sp500_data dates last_price' (date_price_map(date \<mapsto> last_price')))"

text \<open>The body of the \<^verbatim>\<open>try\<close>, lines 190 to 211.\<close>

definition fetch_sp500_body ::
  "(string \<Rightarrow> error + int) \<Rightarrow> market_source \<Rightarrow> string list
    \<Rightarrow> error + (string \<rightharpoonup> real option)" where
  "fetch_sp500_body strptime history dates =
     (case py_min dates of Inl e \<Rightarrow> Inl e | Inr start_date \<Rightarrow>
     (case py_max dates of Inl e \<Rightarrow> Inl e | Inr end_date \<Rightarrow>
     (case strptime end_date of Inl e \<Rightarrow> Inl e | Inr end_day \<Rightarrow>
     (case history start_date (end_day + 1) of Inl e \<Rightarrow> Inl e | Inr rows \<Rightarrow>
        if rows = [] then Inr Map.empty
        else Inr (fill_prices (to_dict rows) dates None Map.empty)))))"

text \<open>\<^verbatim>\<open>except Exception\<close>: every error is logged and becomes the empty dictionary.\<close>

definition batch_fetch_sp500 ::
  "(string \<Rightarrow> error + int) \<Rightarrow> market_source \<Rightarrow> string list \<Rightarrow> (string \<rightharpoonup> real option)" where
  "batch_fetch_sp500 strptime history dates =
     (case fetch_sp500_body strptime history dates of
        Inl e \<Rightarrow> Map.empty
      | Inr date_price_map \<Rightarrow> date_price_map)"

section \<open>Coordinate validation\<close>

definition VALID_LAT_RANGE :: "real \<times> real" where
  "VALID_LAT_RANGE = (-90, 90)"

definition VALID_LON_RANGE :: "real \<times> real" where
  "VALID_LON_RANGE = (-180, 180)"

definition validate_coordinates :: "real \<Rightarrow> real \<Rightarrow> bool" where
  "validate_coordinates lat lon =
     (fst VALID_LAT_RANGE \<le> lat \<and> lat \<le> snd VALID_LAT_RANGE \<and>
      fst VALID_LON_RANGE \<le> lon \<and> lon \<le> snd VALID_LON_RANGE)"

section \<open>Weather Series Fetcher: \<^verbatim>\<open>retry_request\<close> and \<^verbatim>\<open>batch_fetch_weather\<close>\<close>

definition TIMEZONE :: string where
  "TIMEZONE = ''America/Sao_Paulo''"

record params =
  latitude :: real
  longitude :: real
  start_date :: string
  end_date :: string
  daily :: "string list"
  timezone :: string

text \<open>
  The JSON body of a response, as far as the fetcher reads it: \<^verbatim>\<open>response.json()\<close>
  raises on a body that is not JSON; the object may lack the key \<^verbatim>\<open>daily\<close>; the
  daily object may lack each of its three keys; a reading may be \<^verbatim>\<open>null\<close>.
\<close>

record daily_series =
  time :: "string list option"
  temperature_2m_mean :: "real option list option"
  precipitation_sum :: "real option list option"

datatype body = Malformed | Json "daily_series option"

record response =
  status_code :: nat
  content :: body

datatype outcome = Raises error | Responds response

text \<open>
  The endpoint at \<^verbatim>\<open>WEATHER_API_URL\<close>: \<open>srv p k\<close> is what
  \<^verbatim>\<open>requests.get(url, params=p, timeout=15)\<close> does at attempt \<open>k\<close> of the retry loop
  for the request \<open>p\<close>. One run of the fetcher issues each request from one retry loop
  only (one loop per coordinate), so any sequence of outcomes is such a function. The
  world records every GET issued and every \<^verbatim>\<open>time.sleep\<close>.
\<close>

type_synonym server = "params \<Rightarrow> nat \<Rightarrow> outcome"

record world =
  calls :: "params list"
  sleeps :: "nat list"

text \<open>Lines 230 to 232: the GET, then \<^verbatim>\<open>raise_for_status\<close> (HTTPError on 4xx and 5xx).\<close>

definition attempt_request :: "server \<Rightarrow> params \<Rightarrow> nat \<Rightarrow> error + response" where
  "attempt_request srv p attempt =
     (case srv p attempt of
        Raises e \<Rightarrow> Inl e
      | Responds r \<Rightarrow>
          if 400 \<le> status_code r \<and> status_code r < 600 then Inl HTTPError else Inr r)"

fun retry_attempts ::
  "server \<Rightarrow> params \<Rightarrow> nat \<Rightarrow> nat list \<Rightarrow> world \<Rightarrow> response option \<times> world" where
  "retry_attempts srv p delay [] w = (None, w)"
| "retry_attempts srv p delay (attempt # rest) w =
     (let w1 = w\<lparr>calls := calls w @ [p]\<rparr> in
      case attempt_request srv p attempt of
        Inr r \<Rightarrow> (Some r, w1)
      | Inl e \<Rightarrow> retry_attempts srv p delay rest (w1\<lparr>sleeps := sleeps w1 @ [delay]\<rparr>))"

definition retry_request ::
  "server \<Rightarrow> params \<Rightarrow> nat \<Rightarrow> nat \<Rightarrow> world \<Rightarrow> response option \<times> world" where
  "retry_request srv p retries delay w = retry_attempts srv p delay [0..<retries] w"

definition json :: "response \<Rightarrow> error + daily_series option" where
  "json r = (case content r of Malformed \<Rightarrow> Inl JSONDecodeError | Json data \<Rightarrow> Inr data)"

record weather =
  mean_temp :: "real option"
  precipitation :: "real option"

type_synonym coord = "real \<times> real"
type_synonym weather_map = "(real \<times> real \<times> string) \<rightharpoonup> weather"

text \<open>
  \<^verbatim>\<open>location_groups[(lat, lon)].append(date)\<close> on a \<^verbatim>\<open>defaultdict(list)\<close>: the
  groups keep the order in which their coordinates first occur.
\<close>

fun append_date :: "(coord \<times> string list) list \<Rightarrow> coord \<Rightarrow> string \<Rightarrow> (coord \<times> string list) list" where
  "append_date [] c d = [(c, [d])]"
| "append_date ((c', ds) # gs) c d =
     (if c' = c then (c', ds @ [d]) # gs else (c', ds) # append_date gs c d)"

definition location_groups :: "(coord \<times> string) list \<Rightarrow> (coord \<times> string list) list" where
  "location_groups location_dates = fold (\<lambda>(c, d) gs. append_date gs c d) location_dates []"

text \<open>
  Lines 271 to 276, the walk over \<^verbatim>\<open>data['daily']['time']\<close> from index \<open>i\<close>. The two
  readings are looked up only for a date among the requested ones; a missing key or a
  short list raises there.
\<close>

fun record_series ::
  "coord \<Rightarrow> string list \<Rightarrow> daily_series \<Rightarrow> nat \<Rightarrow> string list \<Rightarrow> weather_map
    \<Rightarrow> error + weather_map" where
  "record_series c dates dl i [] weather_data = Inr weather_data"
| "record_series c dates dl i (date # rest) weather_data =
     (if date \<in> set dates then
        (case temperature_2m_mean dl of None \<Rightarrow> Inl KeyError | Some temps \<Rightarrow>
          if length temps \<le> i then Inl IndexError else
        (case precipitation_sum dl of None \<Rightarrow> Inl KeyError | Some precs \<Rightarrow>
          if length precs \<le> i then Inl IndexError else
          record_series c dates dl (i + 1) rest
            (weather_data((fst c, snd c, date) \<mapsto>
               \<lparr>mean_temp = temps ! i, precipitation = precs ! i\<rparr>))))
      else record_series c dates dl (i + 1) rest weather_data)"

definition request_params :: "coord \<Rightarrow> string \<Rightarrow> string \<Rightarrow> params" where
  "request_params c start_d end_d =
     \<lparr>latitude = fst c, longitude = snd c, start_date = start_d, end_date = end_d,
      daily = [''temperature_2m_mean'', ''precipitation_sum''], timezone = TIMEZONE\<rparr>"

text \<open>Lines 255 to 264: the range request of a group, from its first to its last date.\<close>

definition group_params :: "coord \<Rightarrow> string list \<Rightarrow> error + params" where
  "group_params c dates =
     (case py_min dates of Inl e \<Rightarrow> Inl e | Inr start_d \<Rightarrow>
     (case py_max dates of Inl e \<Rightarrow> Inl e | Inr end_d \<Rightarrow>
        Inr (request_params c start_d end_d)))"

text \<open>
  The body of the loop over the groups, lines 253 to 276. A response that
  \<^verbatim>\<open>retry_request\<close> returns has passed \<^verbatim>\<open>raise_for_status\<close>, so it is truthy at
  \<^verbatim>\<open>if response:\<close>; only \<^verbatim>\<open>None\<close> takes the other branch.
\<close>

definition fetch_group ::
  "server \<Rightarrow> coord \<Rightarrow> string list \<Rightarrow> weather_map \<Rightarrow> world \<Rightarrow> (error + weather_map) \<times> world" where
  "fetch_group srv c dates weather_data w =
     (if \<not> validate_coordinates (fst c) (snd c) then (Inr weather_data, w)
      else
       (case group_params c dates of Inl e \<Rightarrow> (Inl e, w) | Inr p \<Rightarrow>
       (case retry_request srv p 3 5 w of
          (None, w') \<Rightarrow> (Inr weather_data, w')
        | (Some r, w') \<Rightarrow>
           (case json r of Inl e \<Rightarrow> (Inl e, w') | Inr data \<Rightarrow>
           (case data of None \<Rightarrow> (Inr weather_data, w') | Some dl \<Rightarrow>
           (case time dl of None \<Rightarrow> (Inl KeyError, w') | Some days \<Rightarrow>
              (record_series c dates dl 0 days weather_data, w')))))))"

fun fetch_groups ::
  "server \<Rightarrow> (coord \<times> string list) list \<Rightarrow> weather_map \<Rightarrow> world \<Rightarrow> (error + weather_map) \<times> world" where
  "fetch_groups srv [] weather_data w = (Inr weather_data, w)"
| "fetch_groups srv ((c, dates) # groups) weather_data w =
     (case fetch_group srv c dates weather_data w of
        (Inl e, w') \<Rightarrow> (Inl e, w')
      | (Inr weather_data', w') \<Rightarrow> fetch_groups srv groups weather_data' w')"


definition batch_fetch_weather ::
  "server \<Rightarrow> (coord \<times> string) list \<Rightarrow> world \<Rightarrow> (error + weather_map) \<times> world" where
  "batch_fetch_weather srv location_dates w =
     fetch_groups srv (location_groups location_dates) Map.empty w"

section \<open>Coordinate Resolver: \<^verbatim>\<open>process_geolocations\<close>\<close>

record geolocation =
  geolocation_zip_code_prefix :: string
  geolocation_lat :: real
  geolocation_lng :: real
  geolocation_city :: string
  geolocation_state :: string

text \<open>The aggregation \<^verbatim>\<open>'mean'\<close> of a group's column.\<close>

definition mean :: "real list \<Rightarrow> real" where
  "mean xs = sum_list xs / real (length xs)"

text \<open>
  \<^verbatim>\<open>groupby('geolocation_zip_code_prefix')\<close>: one group per distinct key, the keys in
  ascending order, each group holding its rows in their original order.
\<close>

definition samples_of :: "string \<Rightarrow> geolocation list \<Rightarrow> geolocation list" where
  "samples_of k geolocations = filter (\<lambda>r. geolocation_zip_code_prefix r = k) geolocations"

definition groupby_zip :: "geolocation list \<Rightarrow> (string \<times> geolocation list) list" where
  "groupby_zip geolocations =
     map (\<lambda>k. (k, samples_of k geolocations))
       (sort (remdups (map geolocation_zip_code_prefix geolocations)))"

text \<open>
  \<^verbatim>\<open>.agg({... 'mean', 'mean', 'first', 'first'}).reset_index()\<close> on one group. A group
  of \<^verbatim>\<open>groupby\<close> is never empty; the empty case gives no row. City and state are
  carried as plain strings.
\<close>

definition agg_group :: "string \<times> geolocation list \<Rightarrow> geolocation list" where
  "agg_group kg =
     (case snd kg of
        [] \<Rightarrow> []
      | first # others \<Rightarrow>
          [\<lparr>geolocation_zip_code_prefix = fst kg,
            geolocation_lat = mean (map geolocation_lat (snd kg)),
            geolocation_lng = mean (map geolocation_lng (snd kg)),
            geolocation_city = geolocation_city first,
            geolocation_state = geolocation_state first\<rparr>])"

definition process_geolocations :: "geolocation list \<Rightarrow> geolocation list" where
  "process_geolocations geolocations =
     filter (\<lambda>x. validate_coordinates (geolocation_lat x) (geolocation_lng x))
       (concat (map agg_group (groupby_zip geolocations)))"

section \<open>Relational Joiner: \<^verbatim>\<open>join_olist_data\<close>\<close>

text \<open>
  The frames are the cleaned ones of \<^verbatim>\<open>load_olist_data\<close>, with the columns the join
  reads. A column is nullable here exactly when the cleaning leaves it so:
  \<^verbatim>\<open>freight_value\<close> of an order item and \<^verbatim>\<open>customer_id\<close> of an order. Timestamps
  are the integers of \<^verbatim>\<open>datetime64[ns]\<close>.
\<close>

record order_item =
  item_order_id :: string
  item_seller_id :: string
  price :: real
  freight_value :: "real option"

record order =
  order_id :: string
  order_customer_id :: "string option"
  order_purchase_timestamp :: int
  order_delivered_customer_date :: int

record customer =
  customer_id :: string
  customer_zip_code_prefix :: string

text \<open>Line 148: the inner merge on \<^verbatim>\<open>order_id\<close>, in the order of the left frame.\<close>

definition merge_orders :: "order_item list \<Rightarrow> order list \<Rightarrow> (order_item \<times> order) list" where
  "merge_orders order_items orders =
     concat (map (\<lambda>i. map (\<lambda>ord. (i, ord))
                          (filter (\<lambda>ord. order_id ord = item_order_id i) orders))
                 order_items)"

text \<open>Line 155: \<^verbatim>\<open>price + freight_value\<close>, null when the freight value is.\<close>

definition total_price :: "order_item \<Rightarrow> real option" where
  "total_price i = (case freight_value i of None \<Rightarrow> None | Some f \<Rightarrow> Some (price i + f))"

text \<open>
  The key of a merged row for the \<^verbatim>\<open>groupby\<close> of line 157. \<^verbatim>\<open>groupby\<close> leaves out a
  row with a null in its key (\<^verbatim>\<open>dropna=True\<close>): that is \<open>None\<close>.
\<close>

type_synonym group_key = "string \<times> string \<times> string \<times> int \<times> int"

definition group_key_of :: "order_item \<times> order \<Rightarrow> group_key option" where
  "group_key_of io =
     (case order_customer_id (snd io) of
        None \<Rightarrow> None
      | Some cid \<Rightarrow> Some (item_order_id (fst io), item_seller_id (fst io), cid,
          order_purchase_timestamp (snd io), order_delivered_customer_date (snd io)))"

text \<open>The aggregation \<^verbatim>\<open>'sum'\<close> skips nulls.\<close>

definition sum_skipna :: "real option list \<Rightarrow> real" where
  "sum_skipna xs = sum_list (map (\<lambda>x. case x of None \<Rightarrow> 0 | Some v \<Rightarrow> v) xs)"

text \<open>The distinct keys of the merged rows, ascending as \<^verbatim>\<open>groupby\<close> sorts them.\<close>

definition combinations :: "(order_item \<times> order) list \<Rightarrow> group_key list" where
  "combinations orders_items = sort (remdups (List.map_filter group_key_of orders_items))"

definition group_total :: "(order_item \<times> order) list \<Rightarrow> group_key \<Rightarrow> real" where
  "group_total orders_items k =
     sum_skipna (map (\<lambda>io. total_price (fst io))
                     (filter (\<lambda>io. group_key_of io = Some k) orders_items))"

definition order_agg :: "(order_item \<times> order) list \<Rightarrow> (group_key \<times> real) list" where
  "order_agg orders_items = map (\<lambda>k. (k, group_total orders_items k)) (combinations orders_items)"

text \<open>
  Lines 163 and 165: the two left merges. A left row with no match stays, with the
  right columns null; a left row with several matches is repeated, once per match.
\<close>

definition merge_customers ::
  "(group_key \<times> real) list \<Rightarrow> customer list \<Rightarrow> (group_key \<times> real \<times> string option) list" where
  "merge_customers agg customers =
     concat (map (\<lambda>(k, tot).
        (case filter (\<lambda>c. customer_id c = fst (snd (snd k))) customers of
           [] \<Rightarrow> [(k, tot, None)]
         | cs \<Rightarrow> map (\<lambda>c. (k, tot, Some (customer_zip_code_prefix c))) cs)) agg)"

definition merge_geo ::
  "(group_key \<times> real \<times> string option) list \<Rightarrow> geolocation list
    \<Rightarrow> (group_key \<times> real \<times> (real \<times> real) option) list" where
  "merge_geo result geo_processed =
     concat (map (\<lambda>(k, tot, zip).
        (case filter (\<lambda>g. Some (geolocation_zip_code_prefix g) = zip) geo_processed of
           [] \<Rightarrow> [(k, tot, None)]
         | gs \<Rightarrow> map (\<lambda>g. (k, tot, Some (geolocation_lat g, geolocation_lng g))) gs)) result)"

record joined_row =
  row_order_id :: string
  row_seller_id :: string
  row_purchase_timestamp :: int
  row_delivered_customer_date :: int
  total_order_value :: real
  delivery_location_latitude :: real
  delivery_location_longitude :: real

text \<open>
  Line 179: \<^verbatim>\<open>dropna(subset=required_cols)[required_cols]\<close>. Of the required columns
  only the two coordinates can be null here.
\<close>

definition dropna_required :: "group_key \<times> real \<times> (real \<times> real) option \<Rightarrow> joined_row option" where
  "dropna_required row =
     (case row of
        (k, tot, None) \<Rightarrow> None
      | ((oid, sid, cid, purchased, delivered), tot, Some (lat, lon)) \<Rightarrow>
          Some \<lparr>row_order_id = oid, row_seller_id = sid, row_purchase_timestamp = purchased,
                row_delivered_customer_date = delivered, total_order_value = tot,
                delivery_location_latitude = lat, delivery_location_longitude = lon\<rparr>)"

definition join_olist_data ::
  "'s \<Rightarrow> order list \<Rightarrow> order_item list \<Rightarrow> geolocation list \<Rightarrow> customer list \<Rightarrow> joined_row list" where
  "join_olist_data sellers orders order_items geo_processed customers =
     List.map_filter dropna_required
       (merge_geo (merge_customers (order_agg (merge_orders order_items orders)) customers)
          geo_processed)"

section \<open>Enrichment Merger: \<^verbatim>\<open>enrich_data\<close>\<close>

text \<open>
  Two functions of pandas are parameters. \<open>tz\<close> is
  \<^verbatim>\<open>.dt.tz_localize(TIMEZONE, ambiguous='NaT', nonexistent='NaT').dt.tz_convert('UTC')\<close>
  on one timestamp, \<open>None\<close> being \<^verbatim>\<open>NaT\<close>; \<open>strftime\<close> is
  \<^verbatim>\<open>.strftime("%Y-%m-%d")\<close> on a UTC timestamp.
\<close>

text \<open>Lines 289 to 297: both timestamps are converted, and a row with a \<^verbatim>\<open>NaT\<close> is dropped.\<close>

definition localize_row :: "(int \<Rightarrow> int option) \<Rightarrow> joined_row \<Rightarrow> joined_row option" where
  "localize_row tz r =
     (case tz (row_purchase_timestamp r) of None \<Rightarrow> None | Some purchased \<Rightarrow>
     (case tz (row_delivered_customer_date r) of None \<Rightarrow> None | Some delivered \<Rightarrow>
        Some (r\<lparr>row_purchase_timestamp := purchased, row_delivered_customer_date := delivered\<rparr>)))"

definition localize_rows :: "(int \<Rightarrow> int option) \<Rightarrow> joined_row list \<Rightarrow> joined_row list" where
  "localize_rows tz df = List.map_filter (localize_row tz) df"

text \<open>\<^verbatim>\<open>.unique()\<close>: the distinct values in the order of their first occurrence.\<close>

definition unique :: "'a list \<Rightarrow> 'a list" where
  "unique xs = rev (remdups (rev xs))"

definition purchase_dates :: "(int \<Rightarrow> string) \<Rightarrow> joined_row list \<Rightarrow> string list" where
  "purchase_dates strftime df = unique (map (\<lambda>r. strftime (row_purchase_timestamp r)) df)"

text \<open>Lines 305 and 306.\<close>

definition location_dates_of :: "(int \<Rightarrow> string) \<Rightarrow> joined_row list \<Rightarrow> (coord \<times> string) list" where
  "location_dates_of strftime df =
     map (\<lambda>r. ((delivery_location_latitude r, delivery_location_longitude r),
                strftime (row_delivered_customer_date r))) df"

text \<open>The frame with its three added columns; each of them may hold a null.\<close>

record enriched_row = joined_row +
  market_sentiment_on_purchase_date :: "real option"
  delivery_date_mean_temp :: "real option"
  delivery_date_precipitation_sum :: "real option"

text \<open>
  Lines 303, 316 and 317 on one row. \<^verbatim>\<open>Series.map(dict)\<close> gives a null for a date that
  is no key and for a key whose value is \<^verbatim>\<open>None\<close>;
  \<^verbatim>\<open>weather_data.get(x, {}).get(...)\<close> gives \<^verbatim>\<open>None\<close> for a key that is missing.
\<close>

definition enrich_row ::
  "(int \<Rightarrow> string) \<Rightarrow> (string \<rightharpoonup> real option) \<Rightarrow> weather_map \<Rightarrow> joined_row \<Rightarrow> enriched_row" where
  "enrich_row strftime sp500_prices weather_data r =
     \<lparr>row_order_id = row_order_id r, row_seller_id = row_seller_id r,
      row_purchase_timestamp = row_purchase_timestamp r,
      row_delivered_customer_date = row_delivered_customer_date r,
      total_order_value = total_order_value r,
      delivery_location_latitude = delivery_location_latitude r,
      delivery_location_longitude = delivery_location_longitude r,
      market_sentiment_on_purchase_date =
        (case sp500_prices (strftime (row_purchase_timestamp r)) of
           None \<Rightarrow> None | Some v \<Rightarrow> v),
      delivery_date_mean_temp =
        (case weather_data (delivery_location_latitude r, delivery_location_longitude r,
                            strftime (row_delivered_customer_date r)) of
           None \<Rightarrow> None | Some e \<Rightarrow> mean_temp e),
      delivery_date_precipitation_sum =
        (case weather_data (delivery_location_latitude r, delivery_location_longitude r,
                            strftime (row_delivered_customer_date r)) of
           None \<Rightarrow> None | Some e \<Rightarrow> precipitation e)\<rparr>"

text \<open>
  Line 329, \<^verbatim>\<open>dropna(subset=final_fields)\<close>: of the ten fields the three added ones can
  be null here.
\<close>

definition final_fields_present :: "enriched_row \<Rightarrow> bool" where
  "final_fields_present r \<longleftrightarrow>
     market_sentiment_on_purchase_date r \<noteq> None \<and>
     delivery_date_mean_temp r \<noteq> None \<and>
     delivery_date_precipitation_sum r \<noteq> None"

definition enrich_data ::
  "(int \<Rightarrow> int option) \<Rightarrow> (int \<Rightarrow> string) \<Rightarrow> (string \<Rightarrow> error + int) \<Rightarrow> market_source
    \<Rightarrow> server \<Rightarrow> joined_row list \<Rightarrow> world \<Rightarrow> (error + enriched_row list) \<times> world" where
  "enrich_data tz strftime strptime history srv df w =
     (let df1 = localize_rows tz df;
          sp500_prices = batch_fetch_sp500 strptime history (purchase_dates strftime df1)
      in case batch_fetch_weather srv (location_dates_of strftime df1) w of
           (Inl e, w') \<Rightarrow> (Inl e, w')
         | (Inr weather_data, w') \<Rightarrow>
             (Inr (filter final_fields_present
                     (map (enrich_row strftime sp500_prices weather_data) df1)), w'))"

section \<open>The pipeline: \<^verbatim>\<open>main\<close>\<close>

text \<open>
  Lines 338 to 353 with the five stage calls as parameters, each of which may raise:
  the body of the \<^verbatim>\<open>try\<close> runs the stages in order and stops at the first exception.
\<close>

definition main_body ::
  "(error + 'a) \<Rightarrow> ('a \<Rightarrow> error + 'g) \<Rightarrow> ('a \<Rightarrow> 'g \<Rightarrow> error + 'j) \<Rightarrow> ('j \<Rightarrow> error + 'e)
    \<Rightarrow> ('e \<Rightarrow> error + unit) \<Rightarrow> error + unit" where
  "main_body load geo join enrich to_csv =
     (case load of Inl e \<Rightarrow> Inl e | Inr frames \<Rightarrow>
     (case geo frames of Inl e \<Rightarrow> Inl e | Inr geo_processed \<Rightarrow>
     (case join frames geo_processed of Inl e \<Rightarrow> Inl e | Inr joined_data \<Rightarrow>
     (case enrich joined_data of Inl e \<Rightarrow> Inl e | Inr enriched_data \<Rightarrow>
        to_csv enriched_data))))"

text \<open>
  \<^verbatim>\<open>except Exception as e: logging.error(...); raise\<close>: the exception caught is the
  exception raised again.
\<close>

definition run_main ::
  "(error + 'a) \<Rightarrow> ('a \<Rightarrow> error + 'g) \<Rightarrow> ('a \<Rightarrow> 'g \<Rightarrow> error + 'j) \<Rightarrow> ('j \<Rightarrow> error + 'e)
    \<Rightarrow> ('e \<Rightarrow> error + unit) \<Rightarrow> error + unit" where
  "run_main load geo join enrich to_csv =
     (case main_body load geo join enrich to_csv of
        Inl e \<Rightarrow> Inl e
      | Inr done \<Rightarrow> Inr done)"

text \<open>
  \<^verbatim>\<open>main\<close> itself: the stages are the functions above. Reading the files and writing
  the output are parameters; the two middle stages raise nothing on frames of these
  types.
\<close>

type_synonym 's frames = "'s \<times> order list \<times> order_item list \<times> geolocation list \<times> customer list"

definition main ::
  "(error + 's frames) \<Rightarrow> (enriched_row list \<Rightarrow> error + unit)
    \<Rightarrow> (int \<Rightarrow> int option) \<Rightarrow> (int \<Rightarrow> string) \<Rightarrow> (string \<Rightarrow> error + int) \<Rightarrow> market_source
    \<Rightarrow> server \<Rightarrow> world \<Rightarrow> error + unit" where
  "main load_olist_data to_csv tz strftime strptime history srv w =
     run_main load_olist_data
       (\<lambda>(sellers, orders, order_items, geolocations, customers).
          Inr (process_geolocations geolocations))
       (\<lambda>(sellers, orders, order_items, geolocations, customers) geo_processed.
          Inr (join_olist_data sellers orders order_items geo_processed customers))
       (\<lambda>joined_data. fst (enrich_data tz strftime strptime history srv joined_data w))
       to_csv"

section \<open>The Relational Joiner in the words of the specification\<close>

text \<open>
  For comparison with \<^const>\<open>join_olist_data\<close>: the specification's reading of the join,
  one row per combination, each resolved by lookup. The inner join pairs an order line
  with an order exactly when their order ids agree; a line whose order id has no order
  is in no pair. The customer of a combination
  resolves to the zip prefix of the customer record of that id, the zip prefix to the
  coordinate of that prefix; the total is the sum of price + freight value over the
  combination's lines (a line without freight value is skipped, as the aggregation
  skips it).
\<close>

definition spec_inner_join :: "order_item list \<Rightarrow> order list \<Rightarrow> (order_item \<times> order) list" where
  "spec_inner_join order_items orders =
     [(i, ord). i \<leftarrow> order_items, ord \<leftarrow> orders, order_id ord = item_order_id i]"

definition zip_of_customer :: "customer list \<Rightarrow> string \<Rightarrow> string option" where
  "zip_of_customer customers cid =
     map_option customer_zip_code_prefix (find (\<lambda>c. customer_id c = cid) customers)"

definition coordinate_of_zip :: "geolocation list \<Rightarrow> string \<Rightarrow> (real \<times> real) option" where
  "coordinate_of_zip geo_processed z =
     map_option (\<lambda>g. (geolocation_lat g, geolocation_lng g))
       (find (\<lambda>g. geolocation_zip_code_prefix g = z) geo_processed)"

definition lines_of :: "(order_item \<times> order) list \<Rightarrow> group_key \<Rightarrow> order_item list" where
  "lines_of orders_items k = map fst (filter (\<lambda>io. group_key_of io = Some k) orders_items)"

definition spec_total :: "order_item list \<Rightarrow> real" where
  "spec_total ls =
     sum_list (map (\<lambda>i. case freight_value i of None \<Rightarrow> 0 | Some f \<Rightarrow> price i + f) ls)"

definition spec_joined_row ::
  "(order_item \<times> order) list \<Rightarrow> geolocation list \<Rightarrow> customer list \<Rightarrow> group_key
    \<Rightarrow> joined_row option" where
  "spec_joined_row orders_items geo_processed customers k =
     (case k of (oid, sid, cid, purchased, delivered) \<Rightarrow>
       (case zip_of_customer customers cid of None \<Rightarrow> None | Some z \<Rightarrow>
       (case coordinate_of_zip geo_processed z of None \<Rightarrow> None | Some (lat, lon) \<Rightarrow>
          Some \<lparr>row_order_id = oid, row_seller_id = sid, row_purchase_timestamp = purchased,
                row_delivered_customer_date = delivered,
                total_order_value = spec_total (lines_of orders_items k),
                delivery_location_latitude = lat, delivery_location_longitude = lon\<rparr>)))"

section \<open>The Enrichment Merger in the words of the specification\<close>

text \<open>
  A joined record is resolved when both of its timestamps localize, the market mapping
  holds a price (not a null) for its purchase date, and the weather mapping holds an
  entry with both readings for its coordinate and delivery date.
\<close>

definition lookups_resolved ::
  "(int \<Rightarrow> int option) \<Rightarrow> (int \<Rightarrow> string) \<Rightarrow> (string \<rightharpoonup> real option) \<Rightarrow> weather_map
    \<Rightarrow> joined_row \<Rightarrow> bool" where
  "lookups_resolved tz strftime sp500_prices weather_data d =
     (case tz (row_purchase_timestamp d) of None \<Rightarrow> False | Some purchased \<Rightarrow>
     (case tz (row_delivered_customer_date d) of None \<Rightarrow> False | Some delivered \<Rightarrow>
        (case sp500_prices (strftime purchased) of
           None \<Rightarrow> False | Some v \<Rightarrow> v \<noteq> None) \<and>
        (case weather_data (delivery_location_latitude d, delivery_location_longitude d,
                            strftime delivered) of
           None \<Rightarrow> False
         | Some e \<Rightarrow> mean_temp e \<noteq> None \<and> precipitation e \<noteq> None)))"

section \<open>Example inputs\<close>

definition example_geolocations :: "geolocation list" where
  "example_geolocations =
    [\<lparr>geolocation_zip_code_prefix = ''02'', geolocation_lat = 10, geolocation_lng = 20,
      geolocation_city = ''a'', geolocation_state = ''SP''\<rparr>,
     \<lparr>geolocation_zip_code_prefix = ''01'', geolocation_lat = 100, geolocation_lng = 20,
      geolocation_city = ''b'', geolocation_state = ''SP''\<rparr>,
     \<lparr>geolocation_zip_code_prefix = ''02'', geolocation_lat = 20, geolocation_lng = 40,
      geolocation_city = ''c'', geolocation_state = ''RJ''\<rparr>]"

definition example_order_items :: "order_item list" where
  "example_order_items =
    [\<lparr>item_order_id = ''o1'', item_seller_id = ''s1'', price = 50, freight_value = Some 10\<rparr>,
     \<lparr>item_order_id = ''o1'', item_seller_id = ''s1'', price = 5, freight_value = Some 1\<rparr>]"

definition example_orders :: "order list" where
  "example_orders =
    [\<lparr>order_id = ''o1'', order_customer_id = Some ''c1'',
      order_purchase_timestamp = 100, order_delivered_customer_date = 200\<rparr>]"

definition example_customers :: "customer list" where
  "example_customers = [\<lparr>customer_id = ''c1'', customer_zip_code_prefix = ''02''\<rparr>]"

definition example_geo_processed :: "geolocation list" where
  "example_geo_processed =
    [\<lparr>geolocation_zip_code_prefix = ''02'', geolocation_lat = 15, geolocation_lng = 30,
      geolocation_city = ''a'', geolocation_state = ''SP''\<rparr>]"

definition example_joined :: "joined_row list" where
  "example_joined =
    [\<lparr>row_order_id = ''o1'', row_seller_id = ''s1'', row_purchase_timestamp = 100,
      row_delivered_customer_date = 200, total_order_value = 66,
      delivery_location_latitude = 15, delivery_location_longitude = 30\<rparr>,
     \<lparr>row_order_id = ''o2'', row_seller_id = ''s2'', row_purchase_timestamp = 999,
      row_delivered_customer_date = 200, total_order_value = 10,
      delivery_location_latitude = 15, delivery_location_longitude = 30\<rparr>]"

definition example_tz :: "int \<Rightarrow> int option" where
  "example_tz t = (if t = 999 then None else Some (t + 3))"

definition example_strftime :: "int \<Rightarrow> string" where
  "example_strftime t = (if t < 150 then ''2024-01-01'' else ''2024-01-05'')"

definition example_history :: market_source where
  "example_history start_d end_day = Inr [(''2024-01-01'', 5000)]"

definition example_server :: server where
  "example_server p k =
     Responds \<lparr>status_code = 200, content = Json (Some
       \<lparr>time = Some [''2024-01-05''], temperature_2m_mean = Some [Some 22.5],
        precipitation_sum = Some [Some 0]\<rparr>)\<rparr>"

definition example_enriched :: enriched_row where
  "example_enriched =
     \<lparr>row_order_id = ''o1'', row_seller_id = ''s1'', row_purchase_timestamp = 103,
      row_delivered_customer_date = 203, total_order_value = 66,
      delivery_location_latitude = 15, delivery_location_longitude = 30,
      market_sentiment_on_purchase_date = Some 5000,
      delivery_date_mean_temp = Some 22.5,
      delivery_date_precipitation_sum = Some 0\<rparr>"

definition example_orders2 :: "order list" where
  "example_orders2 =
    [\<lparr>order_id = ''o1'', order_customer_id = Some ''c1'',
      order_purchase_timestamp = 100, order_delivered_customer_date = 200\<rparr>,
     \<lparr>order_id = ''o2'', order_customer_id = Some ''c2'',
      order_purchase_timestamp = 300, order_delivered_customer_date = 400\<rparr>,
     \<lparr>order_id = ''o3'', order_customer_id = Some ''c3'',
      order_purchase_timestamp = 500, order_delivered_customer_date = 600\<rparr>]"

definition example_order_items2 :: "order_item list" where
  "example_order_items2 =
    [\<lparr>item_order_id = ''o2'', item_seller_id = ''s1'', price = 7, freight_value = Some 3\<rparr>,
     \<lparr>item_order_id = ''o1'', item_seller_id = ''s1'', price = 50, freight_value = Some 10\<rparr>,
     \<lparr>item_order_id = ''o9'', item_seller_id = ''s1'', price = 1000, freight_value = Some 1\<rparr>,
     \<lparr>item_order_id = ''o1'', item_seller_id = ''s1'', price = 5, freight_value = Some 1\<rparr>,
     \<lparr>item_order_id = ''o2'', item_seller_id = ''s2'', price = 20, freight_value = Some 4\<rparr>,
     \<lparr>item_order_id = ''o3'', item_seller_id = ''s1'', price = 9, freight_value = Some 1\<rparr>]"

definition example_customers2 :: "customer list" where
  "example_customers2 =
    [\<lparr>customer_id = ''c2'', customer_zip_code_prefix = ''03''\<rparr>,
     \<lparr>customer_id = ''c1'', customer_zip_code_prefix = ''02''\<rparr>,
     \<lparr>customer_id = ''c3'', customer_zip_code_prefix = ''77''\<rparr>]"

definition example_geo_processed2 :: "geolocation list" where
  "example_geo_processed2 =
    [\<lparr>geolocation_zip_code_prefix = ''02'', geolocation_lat = 15, geolocation_lng = 30,
      geolocation_city = ''a'', geolocation_state = ''SP''\<rparr>,
     \<lparr>geolocation_zip_code_prefix = ''03'', geolocation_lat = -23, geolocation_lng = -46,
      geolocation_city = ''b'', geolocation_state = ''RJ''\<rparr>]"

section \<open>Proof-side definitions\<close>


section \<open>Properties of the Market Series Fetcher\<close>

lemma fill_prices_other:
  "d \<notin> set dates \<Longrightarrow> fill_prices data dates lp m d = m d"
  by (induction dates arbitrary: lp m) (auto simp: Let_def)

lemma fill_prices_no_earlier:
  "d \<in> set dates \<Longrightarrow> sorted dates \<Longrightarrow> \<forall>x\<in>set dates. x \<le> d \<longrightarrow> data x = None
    \<Longrightarrow> fill_prices data dates None m d = Some None"
proof (induction dates arbitrary: m)
  case Nil
  then show ?case by simp
next
  case (Cons x xs)
  have xd: "x \<le> d" using Cons.prems(1,2) by auto
  then have nx: "data x = None" using Cons.prems(3) by simp
  show ?case
  proof (cases "d \<in> set xs")
    case True
    then show ?thesis using Cons nx by (simp add: Let_def)
  next
    case False
    then have "x = d" using Cons.prems(1) by simp
    then show ?thesis using False nx by (simp add: Let_def fill_prices_other)
  qed
qed

lemma to_dict_dom: "to_dict rows k = Some p \<Longrightarrow> k \<in> fst ` set rows"
  unfolding to_dict_def by (metis map_of_SomeD set_rev image_eqI fst_conv)

text \<open>
  C1. The claim: whatever the order of the requested dates, a date with no direct entry
  gets the price of the most recent earlier date, so the series 2024-01-01: 100,
  2024-01-03: 102 and the dates 2024-01-01 to 2024-01-04 give 100, 100, 102, 102. The loop
  runs over the dates in the order given and never sorts them. Supplied in descending
  order, 2024-01-02 receives 102, the price of the later date 2024-01-03, and 2024-01-04
  receives null: the result is 100, 102, 102, null.
\<close>

theorem sp500_forward_fill_descending_input:
  "map (batch_fetch_sp500 (\<lambda>s. Inr 0)
          (\<lambda>s e. Inr [(''2024-01-01'', 100), (''2024-01-03'', 102)])
          [''2024-01-04'', ''2024-01-03'', ''2024-01-02'', ''2024-01-01''])
       [''2024-01-01'', ''2024-01-02'', ''2024-01-03'', ''2024-01-04'']
   = [Some (Some 100), Some (Some 102), Some (Some 102), Some None]"
  by (simp add: batch_fetch_sp500_def fetch_sp500_body_def py_min_def py_max_def
      to_dict_def Let_def)

text \<open>
  C3, as the claim states it, fails: a requested date that precedes the first entry of a
  non-empty fetched series is a key of the result (line 210 stores every date), here with
  the value null.
\<close>

theorem sp500_early_date_is_key_counterexample:
  "''2023-12-31'' \<in> dom (batch_fetch_sp500 (\<lambda>s. Inr 0) (\<lambda>s e. Inr [(''2024-01-01'', 100)])
      [''2023-12-31'', ''2024-01-01''])"
  by (simp add: batch_fetch_sp500_def fetch_sp500_body_def py_min_def py_max_def
      to_dict_def Let_def dom_def)

text \<open>
  C3, amended: when the fetch returns a non-empty series and the requested dates are
  supplied in ascending order, a requested date that precedes every entry of the series
  is a key of the result whose price is null (\<^verbatim>\<open>None\<close>): it carries no price.
\<close>

theorem sp500_early_date_null:
  assumes "py_min dates = Inr start_d" and "py_max dates = Inr end_d"
    and "strptime end_d = Inr end_day"
    and "history start_d (end_day + 1) = Inr rows" and "rows \<noteq> []"
    and "sorted dates" and "d \<in> set dates"
    and "\<forall>k \<in> fst ` set rows. d < k"
  shows "batch_fetch_sp500 strptime history dates d = Some None"
proof -
  have "\<forall>x\<in>set dates. x \<le> d \<longrightarrow> to_dict rows x = None"
  proof (intro ballI impI)
    fix x assume "x \<in> set dates" "x \<le> d"
    show "to_dict rows x = None"
    proof (cases "to_dict rows x")
      case (Some p)
      then have "x \<in> fst ` set rows" by (rule to_dict_dom)
      then have "d < x" using assms(8) by blast
      then show ?thesis using \<open>x \<le> d\<close> by simp
    qed simp
  qed
  then have "fill_prices (to_dict rows) dates None Map.empty d = Some None"
    using assms(6,7) by (simp add: fill_prices_no_earlier)
  then show ?thesis
    using assms(1-5) by (simp add: batch_fetch_sp500_def fetch_sp500_body_def)
qed

theorem sp500_early_date_null_witness:
  "batch_fetch_sp500 (\<lambda>s. Inr 0) (\<lambda>s e. Inr [(''2024-01-01'', 100)])
     [''2023-12-31'', ''2024-01-01''] ''2023-12-31'' = Some None"
  using sp500_early_date_null [of "[''2023-12-31'', ''2024-01-01'']" "''2023-12-31''"
      "''2024-01-01''" "\<lambda>s. Inr 0" 0 "\<lambda>s e. Inr [(''2024-01-01'', 100)]"
      "[(''2024-01-01'', 100)]" "''2023-12-31''"]
  by (simp add: py_min_def py_max_def)

text \<open>
  C8. Whenever every call of the data source raises or returns an empty series, the
  fetcher returns the empty mapping; being a total function into mappings, it raises
  nothing (the \<^verbatim>\<open>except Exception\<close> of line 212 turns every error of the body into
  the empty dictionary).
\<close>

theorem sp500_absorbs_source_errors:
  "(\<forall>s n. (\<exists>e. history s n = Inl e) \<or> history s n = Inr [])
    \<Longrightarrow> batch_fetch_sp500 strptime history dates = Map.empty"
  unfolding batch_fetch_sp500_def fetch_sp500_body_def
  by (auto split: sum.splits) (metis Inl_Inr_False sum.inject(2))

theorem sp500_absorbs_source_errors_witness:
  "batch_fetch_sp500 (\<lambda>s. Inr 0) (\<lambda>s n. if n = 1 then Inl (SourceError ''timeout'') else Inr [])
     [''2024-01-01''] = Map.empty"
  using sp500_absorbs_source_errors
    [of "\<lambda>s n. if n = 1 then Inl (SourceError ''timeout'') else Inr []" "\<lambda>s. Inr 0" "[''2024-01-01'']"]
  by simp

section \<open>Properties of the Weather Series Fetcher\<close>




lemma upt3: "[0..<3] = [0, Suc 0, 2]"
  by (simp add: upt_rec numeral_3_eq_3)




































section \<open>Properties of the Coordinate Resolver\<close>

lemma agg_group_zip:
  "r \<in> set (agg_group (k, g)) \<Longrightarrow> geolocation_zip_code_prefix r = k"
  by (auto simp: agg_group_def split: list.splits)

lemma filter_agg_groups:
  "distinct ks \<Longrightarrow>
   filter (\<lambda>r. geolocation_zip_code_prefix r = z) (concat (map (\<lambda>k. agg_group (k, G k)) ks))
     = (if z \<in> set ks then agg_group (z, G z) else [])"
proof (induction ks)
  case Nil
  show ?case by simp
next
  case (Cons k ks)
  have same: "filter (\<lambda>r. geolocation_zip_code_prefix r = z) (agg_group (k, G k))
      = (if k = z then agg_group (k, G k) else [])"
    using agg_group_zip [of _ k "G k"] by (auto simp: filter_empty_conv filter_id_conv)
  show ?case using Cons same by auto
qed

lemma samples_of_empty:
  "samples_of z geolocations = [] \<longleftrightarrow> z \<notin> set (map geolocation_zip_code_prefix geolocations)"
  by (auto simp: samples_of_def filter_empty_conv)

lemma process_geolocations_zip:
  "filter (\<lambda>r. geolocation_zip_code_prefix r = z) (process_geolocations geolocations)
     = filter (\<lambda>x. validate_coordinates (geolocation_lat x) (geolocation_lng x))
         (agg_group (z, samples_of z geolocations))"
proof -
  let ?ks = "sort (remdups (map geolocation_zip_code_prefix geolocations))"
  have d: "distinct ?ks" by simp
  have "filter (\<lambda>r. geolocation_zip_code_prefix r = z) (process_geolocations geolocations)
      = filter (\<lambda>x. validate_coordinates (geolocation_lat x) (geolocation_lng x))
          (filter (\<lambda>r. geolocation_zip_code_prefix r = z)
             (concat (map (\<lambda>k. agg_group (k, samples_of k geolocations)) ?ks)))"
    by (simp add: process_geolocations_def groupby_zip_def comp_def conj_commute)
  also have "\<dots> = filter (\<lambda>x. validate_coordinates (geolocation_lat x) (geolocation_lng x))
      (if z \<in> set ?ks then agg_group (z, samples_of z geolocations) else [])"
    unfolding filter_agg_groups [OF d] ..
  also have "\<dots> = filter (\<lambda>x. validate_coordinates (geolocation_lat x) (geolocation_lng x))
      (agg_group (z, samples_of z geolocations))"
  proof (cases "z \<in> set ?ks")
    case True
    then show ?thesis by simp
  next
    case False
    then have "samples_of z geolocations = []" using samples_of_empty [of z geolocations] by simp
    then show ?thesis using False by (simp add: agg_group_def)
  qed
  finally show ?thesis .
qed

text \<open>
  C5. For every input and every zip prefix, the output of the Coordinate Resolver has
  exactly one row of that prefix when the prefix has samples and their averaged
  coordinate is valid, and none otherwise; the latitude and longitude of that row are the
  arithmetic means (sum over count) of the latitudes and longitudes of the prefix's
  samples. The resolver is a total function: an invalid mean raises nothing. Floats are
  idealised as reals.
\<close>

theorem coordinate_per_zip_prefix:
  "length (filter (\<lambda>r. geolocation_zip_code_prefix r = z) (process_geolocations geolocations))
     = (if samples_of z geolocations \<noteq> [] \<and>
           validate_coordinates
             (sum_list (map geolocation_lat (samples_of z geolocations))
                / real (length (samples_of z geolocations)))
             (sum_list (map geolocation_lng (samples_of z geolocations))
                / real (length (samples_of z geolocations)))
        then 1 else 0)
   \<and> (\<forall>r \<in> set (process_geolocations geolocations). geolocation_zip_code_prefix r = z \<longrightarrow>
         geolocation_lat r = sum_list (map geolocation_lat (samples_of z geolocations))
                               / real (length (samples_of z geolocations)) \<and>
         geolocation_lng r = sum_list (map geolocation_lng (samples_of z geolocations))
                               / real (length (samples_of z geolocations)))"
proof (rule conjI)
  show "length (filter (\<lambda>r. geolocation_zip_code_prefix r = z) (process_geolocations geolocations))
     = (if samples_of z geolocations \<noteq> [] \<and>
           validate_coordinates
             (sum_list (map geolocation_lat (samples_of z geolocations))
                / real (length (samples_of z geolocations)))
             (sum_list (map geolocation_lng (samples_of z geolocations))
                / real (length (samples_of z geolocations)))
        then 1 else 0)"
    unfolding process_geolocations_zip
    by (cases "samples_of z geolocations") (simp_all add: agg_group_def mean_def)
next
  show "\<forall>r \<in> set (process_geolocations geolocations). geolocation_zip_code_prefix r = z \<longrightarrow>
         geolocation_lat r = sum_list (map geolocation_lat (samples_of z geolocations))
                               / real (length (samples_of z geolocations)) \<and>
         geolocation_lng r = sum_list (map geolocation_lng (samples_of z geolocations))
                               / real (length (samples_of z geolocations))"
  proof (intro ballI impI)
    fix r assume "r \<in> set (process_geolocations geolocations)" "geolocation_zip_code_prefix r = z"
    then have "r \<in> set (filter (\<lambda>r. geolocation_zip_code_prefix r = z) (process_geolocations geolocations))"
      by simp
    then have "r \<in> set (agg_group (z, samples_of z geolocations))"
      unfolding process_geolocations_zip by simp
    then show "geolocation_lat r = sum_list (map geolocation_lat (samples_of z geolocations))
                               / real (length (samples_of z geolocations)) \<and>
         geolocation_lng r = sum_list (map geolocation_lng (samples_of z geolocations))
                               / real (length (samples_of z geolocations))"
      by (cases "samples_of z geolocations") (auto simp: agg_group_def mean_def)
  qed
qed


theorem coordinate_per_zip_prefix_witness:
  "map (\<lambda>r. (geolocation_lat r, geolocation_lng r))
       (filter (\<lambda>r. geolocation_zip_code_prefix r = ''02'')
          (process_geolocations example_geolocations)) = [(15, 30)]
   \<and> length (filter (\<lambda>r. geolocation_zip_code_prefix r = ''01'')
       (process_geolocations example_geolocations)) = 0"
proof -
  let ?out = "process_geolocations example_geolocations"
  let ?f = "filter (\<lambda>r. geolocation_zip_code_prefix r = ''02'') ?out"
  have s2: "samples_of ''02'' example_geolocations =
      [\<lparr>geolocation_zip_code_prefix = ''02'', geolocation_lat = 10, geolocation_lng = 20,
        geolocation_city = ''a'', geolocation_state = ''SP''\<rparr>,
       \<lparr>geolocation_zip_code_prefix = ''02'', geolocation_lat = 20, geolocation_lng = 40,
        geolocation_city = ''c'', geolocation_state = ''RJ''\<rparr>]"
    by (simp add: samples_of_def example_geolocations_def)
  have s1: "samples_of ''01'' example_geolocations =
      [\<lparr>geolocation_zip_code_prefix = ''01'', geolocation_lat = 100, geolocation_lng = 20,
        geolocation_city = ''b'', geolocation_state = ''SP''\<rparr>]"
    by (simp add: samples_of_def example_geolocations_def)
  have v: "validate_coordinates 15 30" "\<not> validate_coordinates 100 20"
    by (simp_all add: validate_coordinates_def VALID_LAT_RANGE_def VALID_LON_RANGE_def)
  have a: "length ?f = 1
     \<and> (\<forall>r \<in> set ?out. geolocation_zip_code_prefix r = ''02'' \<longrightarrow>
           geolocation_lat r = 15 \<and> geolocation_lng r = 30)"
    using coordinate_per_zip_prefix [of "''02''" example_geolocations] v by (simp add: s2)
  have b: "length (filter (\<lambda>r. geolocation_zip_code_prefix r = ''01'') ?out) = 0"
    using coordinate_per_zip_prefix [of "''01''" example_geolocations] v by (simp add: s1)
  from a obtain r where r: "?f = [r]"
    by (cases ?f) auto
  then have "r \<in> set ?f" by simp
  then have "r \<in> set ?out" "geolocation_zip_code_prefix r = ''02''" by simp_all
  then have "geolocation_lat r = 15 \<and> geolocation_lng r = 30" using a by blast
  then have "map (\<lambda>r. (geolocation_lat r, geolocation_lng r)) ?f = [(15, 30)]"
    unfolding r by simp
  with b show ?thesis by blast
qed

section \<open>Properties of the Relational Joiner\<close>

lemma filter_unique_key:
  "distinct (map f xs) \<Longrightarrow>
   filter (\<lambda>x. f x = a) xs = (case find (\<lambda>x. f x = a) xs of None \<Rightarrow> [] | Some x \<Rightarrow> [x])"
proof (induction xs)
  case Nil
  show ?case by simp
next
  case (Cons x xs)
  show ?case
  proof (cases "f x = a")
    case True
    have "f x \<notin> f ` set xs" using Cons.prems by simp
    then have "\<forall>y\<in>set xs. f y \<noteq> a" unfolding True [symmetric] by (metis imageI)
    then have "filter (\<lambda>x. f x = a) xs = []" by (simp add: filter_empty_conv)
    then show ?thesis using True by simp
  next
    case False
    then show ?thesis using Cons by simp
  qed
qed

lemma merge_customers_unique:
  assumes "distinct (map customer_id customers)"
  shows "merge_customers agg customers =
     map (\<lambda>(k, tot). (k, tot, zip_of_customer customers (fst (snd (snd k))))) agg"
proof -
  have one: "(case filter (\<lambda>c. customer_id c = cid) customers of
           [] \<Rightarrow> [(k, tot, None)]
         | cs \<Rightarrow> map (\<lambda>c. (k, tot, Some (customer_zip_code_prefix c))) cs)
       = [(k, tot, zip_of_customer customers cid)]" for cid k and tot :: real
    unfolding filter_unique_key [OF assms] zip_of_customer_def
    by (cases "find (\<lambda>c. customer_id c = cid) customers") simp_all
  show ?thesis unfolding merge_customers_def
    by (induction agg) (auto simp: one)
qed

lemma merge_geo_unique:
  assumes "distinct (map geolocation_zip_code_prefix geo)"
  shows "merge_geo result geo =
     map (\<lambda>(k, tot, zip). (k, tot, (case zip of None \<Rightarrow> None | Some z \<Rightarrow> coordinate_of_zip geo z))) result"
proof -
  have none: "filter (\<lambda>g. Some (geolocation_zip_code_prefix g) = None) geo = []"
    by (simp add: filter_empty_conv)
  have some: "filter (\<lambda>g. Some (geolocation_zip_code_prefix g) = Some z) geo
      = (case find (\<lambda>g. geolocation_zip_code_prefix g = z) geo of None \<Rightarrow> [] | Some x \<Rightarrow> [x])" for z
    using filter_unique_key [OF assms, of z] by simp
  have one: "(case filter (\<lambda>g. Some (geolocation_zip_code_prefix g) = zip) geo of
           [] \<Rightarrow> [(k, tot, None)]
         | gs \<Rightarrow> map (\<lambda>g. (k, tot, Some (geolocation_lat g, geolocation_lng g))) gs)
       = [(k, tot, (case zip of None \<Rightarrow> None | Some z \<Rightarrow> coordinate_of_zip geo z))]"
    for zip and k :: group_key and tot :: real
  proof (cases zip)
    case None
    then show ?thesis using none by simp
  next
    case (Some z)
    show ?thesis unfolding Some some coordinate_of_zip_def
      by (cases "find (\<lambda>g. geolocation_zip_code_prefix g = z) geo") simp_all
  qed
  show ?thesis unfolding merge_geo_def
    by (induction result) (auto simp: one)
qed

lemma group_total_spec: "group_total ois k = spec_total (lines_of ois k)"
  unfolding group_total_def spec_total_def lines_of_def sum_skipna_def total_price_def
  by (simp add: comp_def option.case_distrib [of "\<lambda>x. case x of None \<Rightarrow> 0 | Some v \<Rightarrow> v"] cong: option.case_cong)

lemma map_filter_map: "List.map_filter f (map g xs) = List.map_filter (f \<circ> g) xs"
  by (simp add: List.map_filter_def filter_map comp_def)

lemma set_map_filter:
  "set (List.map_filter f xs) = {y. \<exists>x\<in>set xs. f x = Some y}"
  by (induction xs) (auto split: option.splits)

lemma combinations_set:
  "distinct (combinations ois) \<and>
   set (combinations ois) = {k. \<exists>io\<in>set ois. group_key_of io = Some k}"
  by (simp add: combinations_def set_map_filter)

lemma pairs_of_line:
  "concat (map (\<lambda>ord. if P ord then [(i, ord)] else []) orders)
     = map (\<lambda>ord. (i, ord)) (filter P orders)"
  by (induction orders) simp_all

lemma merge_orders_inner_join:
  "merge_orders order_items orders = spec_inner_join order_items orders"
  unfolding merge_orders_def spec_inner_join_def pairs_of_line ..

lemma set_spec_inner_join:
  "set (spec_inner_join order_items orders)
     = {(i, ord). i \<in> set order_items \<and> ord \<in> set orders \<and> order_id ord = item_order_id i}"
  unfolding spec_inner_join_def by auto

lemma dropna_spec:
  "dropna_required (k, group_total ois k,
       (case zip_of_customer customers (fst (snd (snd k))) of None \<Rightarrow> None
        | Some z \<Rightarrow> coordinate_of_zip geo z))
     = spec_joined_row ois geo customers k"
proof -
  obtain oid sid cid purchased delivered where k: "k = (oid, sid, cid, purchased, delivered)"
    by (cases k) auto
  show ?thesis
  proof (cases "zip_of_customer customers cid")
    case None
    then show ?thesis by (simp add: k dropna_required_def spec_joined_row_def)
  next
    case (Some z)
    then show ?thesis
      by (cases "coordinate_of_zip geo z")
        (auto simp: k dropna_required_def spec_joined_row_def group_total_spec)
  qed
qed

lemmas join_example_defs =
  join_olist_data_def merge_geo_def merge_customers_def order_agg_def combinations_def
  merge_orders_def group_key_of_def group_total_def dropna_required_def
  example_order_items_def example_orders_def example_customers_def example_geo_processed_def

text \<open>
  C6, as the claim states it ("for every input"), fails when a customer id occurs twice
  among the customers: the left merge of line 163 repeats the aggregated row once per
  matching customer record, so one combination gives two output rows.
  (\<^verbatim>\<open>load_olist_data\<close> removes duplicate keys from sellers, orders and order items, not
  from customers.)
\<close>

theorem join_duplicate_customer_counterexample:
  "length (join_olist_data () example_orders example_order_items example_geo_processed
             (example_customers @ example_customers)) = 2
   \<and> combinations (merge_orders example_order_items example_orders)
       = [(''o1'', ''s1'', ''c1'', 100, 200)]"
  by (simp add: join_example_defs)

text \<open>
  C6, amended: when the customer ids are distinct among the customers and the zip
  prefixes are distinct among the coordinates, the Relational Joiner returns exactly the
  rows that the specification's reading gives, one for each distinct (order_id,
  seller_id, customer_id, purchase timestamp, delivered timestamp) combination of the
  inner join whose customer has a zip prefix that has a coordinate, in the ascending
  order of the combinations, and no other row. The inner join pairs a line with an order
  exactly when their order ids agree, and the merge of line 148 is that join. The
  total_order_value of a row is the sum of price + freight_value over the combination's
  lines (a line without freight value is skipped), and every field of an output row is
  present.
\<close>

theorem join_one_row_per_combination:
  assumes "distinct (map customer_id customers)"
    and "distinct (map geolocation_zip_code_prefix geo_processed)"
  shows "join_olist_data sellers orders order_items geo_processed customers
       = List.map_filter
           (spec_joined_row (spec_inner_join order_items orders) geo_processed customers)
           (combinations (spec_inner_join order_items orders))
     \<and> distinct (combinations (spec_inner_join order_items orders))
     \<and> sorted (combinations (spec_inner_join order_items orders))
     \<and> set (combinations (spec_inner_join order_items orders))
         = {k. \<exists>i \<in> set order_items. \<exists>ord \<in> set orders.
                 order_id ord = item_order_id i \<and> group_key_of (i, ord) = Some k}
     \<and> merge_orders order_items orders = spec_inner_join order_items orders
     \<and> set (merge_orders order_items orders)
         = {(i, ord). i \<in> set order_items \<and> ord \<in> set orders \<and>
                      order_id ord = item_order_id i}"
proof -
  let ?ois = "spec_inner_join order_items orders"
  have m: "merge_orders order_items orders = ?ois"
    by (rule merge_orders_inner_join)
  have "join_olist_data sellers orders order_items geo_processed customers
      = List.map_filter (\<lambda>k. dropna_required (k, group_total ?ois k,
           (case zip_of_customer customers (fst (snd (snd k))) of None \<Rightarrow> None
            | Some z \<Rightarrow> coordinate_of_zip geo_processed z)))
          (combinations ?ois)"
    unfolding join_olist_data_def merge_geo_unique [OF assms(2)]
      merge_customers_unique [OF assms(1)] order_agg_def m
    by (simp add: map_filter_map comp_def)
  then have j: "join_olist_data sellers orders order_items geo_processed customers
       = List.map_filter (spec_joined_row ?ois geo_processed customers) (combinations ?ois)"
    unfolding dropna_spec .
  have d: "distinct (combinations ?ois)" and srt: "sorted (combinations ?ois)"
    by (simp_all add: combinations_def)
  have "set (combinations ?ois) = {k. \<exists>io\<in>set ?ois. group_key_of io = Some k}"
    using combinations_set [of ?ois] by simp
  also have "\<dots> = {k. \<exists>i \<in> set order_items. \<exists>ord \<in> set orders.
                 order_id ord = item_order_id i \<and> group_key_of (i, ord) = Some k}"
    unfolding set_spec_inner_join by auto
  finally have c: "set (combinations ?ois)
         = {k. \<exists>i \<in> set order_items. \<exists>ord \<in> set orders.
                 order_id ord = item_order_id i \<and> group_key_of (i, ord) = Some k}" .
  have s: "set (merge_orders order_items orders)
         = {(i, ord). i \<in> set order_items \<and> ord \<in> set orders \<and>
                      order_id ord = item_order_id i}"
    unfolding m by (rule set_spec_inner_join)
  from j d srt c m s show ?thesis by blast
qed

theorem join_one_row_per_combination_witness:
  "distinct (map customer_id example_customers2)
   \<and> distinct (map geolocation_zip_code_prefix example_geo_processed2)
   \<and> join_olist_data () example_orders2 example_order_items2 example_geo_processed2
        example_customers2
      = [\<lparr>row_order_id = ''o1'', row_seller_id = ''s1'', row_purchase_timestamp = 100,
          row_delivered_customer_date = 200, total_order_value = 66,
          delivery_location_latitude = 15, delivery_location_longitude = 30\<rparr>,
         \<lparr>row_order_id = ''o2'', row_seller_id = ''s1'', row_purchase_timestamp = 300,
          row_delivered_customer_date = 400, total_order_value = 10,
          delivery_location_latitude = - 23, delivery_location_longitude = - 46\<rparr>,
         \<lparr>row_order_id = ''o2'', row_seller_id = ''s2'', row_purchase_timestamp = 300,
          row_delivered_customer_date = 400, total_order_value = 24,
          delivery_location_latitude = - 23, delivery_location_longitude = - 46\<rparr>]
   \<and> length (merge_orders example_order_items2 example_orders2) = 5
   \<and> combinations (spec_inner_join example_order_items2 example_orders2)
      = [(''o1'', ''s1'', ''c1'', 100, 200), (''o2'', ''s1'', ''c2'', 300, 400),
         (''o2'', ''s2'', ''c2'', 300, 400), (''o3'', ''s1'', ''c3'', 500, 600)]"
proof -
  let ?ois = "spec_inner_join example_order_items2 example_orders2"
  have d: "distinct (map customer_id example_customers2)"
    "distinct (map geolocation_zip_code_prefix example_geo_processed2)"
    by (simp_all add: example_customers2_def example_geo_processed2_def)
  have l: "length ?ois = 5"
    by (simp add: spec_inner_join_def example_order_items2_def example_orders2_def)
  have c: "combinations ?ois
      = [(''o1'', ''s1'', ''c1'', 100, 200), (''o2'', ''s1'', ''c2'', 300, 400),
         (''o2'', ''s2'', ''c2'', 300, 400), (''o3'', ''s1'', ''c3'', 500, 600)]"
    by (simp add: combinations_def spec_inner_join_def group_key_of_def
        example_order_items2_def example_orders2_def)
  have r1: "spec_joined_row ?ois example_geo_processed2 example_customers2
        (''o1'', ''s1'', ''c1'', 100, 200)
      = Some \<lparr>row_order_id = ''o1'', row_seller_id = ''s1'', row_purchase_timestamp = 100,
          row_delivered_customer_date = 200, total_order_value = 66,
          delivery_location_latitude = 15, delivery_location_longitude = 30\<rparr>"
    by (simp add: spec_joined_row_def zip_of_customer_def coordinate_of_zip_def lines_of_def
        spec_total_def spec_inner_join_def group_key_of_def example_order_items2_def
        example_orders2_def example_customers2_def example_geo_processed2_def)
  have r2: "spec_joined_row ?ois example_geo_processed2 example_customers2
        (''o2'', ''s1'', ''c2'', 300, 400)
      = Some \<lparr>row_order_id = ''o2'', row_seller_id = ''s1'', row_purchase_timestamp = 300,
          row_delivered_customer_date = 400, total_order_value = 10,
          delivery_location_latitude = - 23, delivery_location_longitude = - 46\<rparr>"
    by (simp add: spec_joined_row_def zip_of_customer_def coordinate_of_zip_def lines_of_def
        spec_total_def spec_inner_join_def group_key_of_def example_order_items2_def
        example_orders2_def example_customers2_def example_geo_processed2_def)
  have r3: "spec_joined_row ?ois example_geo_processed2 example_customers2
        (''o2'', ''s2'', ''c2'', 300, 400)
      = Some \<lparr>row_order_id = ''o2'', row_seller_id = ''s2'', row_purchase_timestamp = 300,
          row_delivered_customer_date = 400, total_order_value = 24,
          delivery_location_latitude = - 23, delivery_location_longitude = - 46\<rparr>"
    by (simp add: spec_joined_row_def zip_of_customer_def coordinate_of_zip_def lines_of_def
        spec_total_def spec_inner_join_def group_key_of_def example_order_items2_def
        example_orders2_def example_customers2_def example_geo_processed2_def)
  have r4: "spec_joined_row ?ois example_geo_processed2 example_customers2
        (''o3'', ''s1'', ''c3'', 500, 600) = None"
    by (simp add: spec_joined_row_def zip_of_customer_def coordinate_of_zip_def
        example_customers2_def example_geo_processed2_def)
  note inst = join_one_row_per_combination [OF d, of "()" example_orders2 example_order_items2]
  from inst have j: "join_olist_data () example_orders2 example_order_items2
        example_geo_processed2 example_customers2
      = List.map_filter (spec_joined_row ?ois example_geo_processed2 example_customers2)
          (combinations ?ois)"
    and m: "merge_orders example_order_items2 example_orders2 = ?ois"
    by blast+
  show ?thesis
    unfolding j m c using d l by (simp add: r1 r2 r3 r4)
qed

section \<open>Properties of the Enrichment Merger\<close>

lemma filter_map_map_filter:
  "list_all2 (\<lambda>out x. \<exists>y. g x = Some y \<and> out = f y)
     (filter P (map f (List.map_filter g xs)))
     (filter (\<lambda>x. case g x of None \<Rightarrow> False | Some y \<Rightarrow> P (f y)) xs)"
  by (induction xs) (auto split: option.splits)

lemma enrich_row_carried:
  "row_order_id (enrich_row strftime sp wd r) = row_order_id r"
  "row_seller_id (enrich_row strftime sp wd r) = row_seller_id r"
  "row_purchase_timestamp (enrich_row strftime sp wd r) = row_purchase_timestamp r"
  "row_delivered_customer_date (enrich_row strftime sp wd r) = row_delivered_customer_date r"
  "total_order_value (enrich_row strftime sp wd r) = total_order_value r"
  "delivery_location_latitude (enrich_row strftime sp wd r) = delivery_location_latitude r"
  "delivery_location_longitude (enrich_row strftime sp wd r) = delivery_location_longitude r"
  by (simp_all add: enrich_row_def)

lemma localize_row_Some:
  "localize_row tz d = Some y \<Longrightarrow>
     tz (row_purchase_timestamp d) = Some (row_purchase_timestamp y) \<and>
     tz (row_delivered_customer_date d) = Some (row_delivered_customer_date y) \<and>
     row_order_id y = row_order_id d \<and> row_seller_id y = row_seller_id d \<and>
     total_order_value y = total_order_value d \<and>
     delivery_location_latitude y = delivery_location_latitude d \<and>
     delivery_location_longitude y = delivery_location_longitude d"
  by (auto simp: localize_row_def split: option.splits)

lemma resolved_iff:
  "(case localize_row tz d of None \<Rightarrow> False
    | Some y \<Rightarrow> final_fields_present (enrich_row strftime sp wd y))
   = lookups_resolved tz strftime sp wd d"
  by (auto simp: localize_row_def lookups_resolved_def final_fields_present_def enrich_row_def
      split: option.splits)

lemma enrich_data_rows:
  assumes "enrich_data tz strftime strptime history srv df w = (Inr out, w')"
  shows "\<exists>weather_data.
     batch_fetch_weather srv (location_dates_of strftime (localize_rows tz df)) w
       = (Inr weather_data, w') \<and>
     out = filter final_fields_present
       (map (enrich_row strftime
               (batch_fetch_sp500 strptime history (purchase_dates strftime (localize_rows tz df)))
               weather_data)
            (localize_rows tz df))"
  using assms unfolding enrich_data_def Let_def
  by (auto split: prod.splits sum.splits)

lemma enrich_data_corr:
  assumes "enrich_data tz strftime strptime history srv df w = (Inr out, w')"
  shows "\<exists>weather_data.
     batch_fetch_weather srv (location_dates_of strftime (localize_rows tz df)) w
       = (Inr weather_data, w') \<and>
     list_all2 (\<lambda>r d. \<exists>y. localize_row tz d = Some y \<and>
          r = enrich_row strftime
               (batch_fetch_sp500 strptime history (purchase_dates strftime (localize_rows tz df)))
               weather_data y)
       out
       (filter (lookups_resolved tz strftime
                 (batch_fetch_sp500 strptime history (purchase_dates strftime (localize_rows tz df)))
                 weather_data) df)"
proof -
  from enrich_data_rows [OF assms] obtain weather_data where
    wd: "batch_fetch_weather srv (location_dates_of strftime (localize_rows tz df)) w
       = (Inr weather_data, w')"
    and out: "out = filter final_fields_present
       (map (enrich_row strftime
               (batch_fetch_sp500 strptime history (purchase_dates strftime (localize_rows tz df)))
               weather_data)
            (localize_rows tz df))"
    by blast
  let ?sp = "batch_fetch_sp500 strptime history (purchase_dates strftime (localize_rows tz df))"
  have "list_all2 (\<lambda>r d. \<exists>y. localize_row tz d = Some y \<and> r = enrich_row strftime ?sp weather_data y)
       out (filter (lookups_resolved tz strftime ?sp weather_data) df)"
    using filter_map_map_filter [of "localize_row tz" "enrich_row strftime ?sp weather_data"
        final_fields_present df]
    unfolding out localize_rows_def resolved_iff .
  with wd show ?thesis by blast
qed

lemma example_localized:
  "localize_rows example_tz example_joined =
     [\<lparr>row_order_id = ''o1'', row_seller_id = ''s1'', row_purchase_timestamp = 103,
      row_delivered_customer_date = 203, total_order_value = 66,
      delivery_location_latitude = 15, delivery_location_longitude = 30\<rparr>]"
  by (simp add: localize_rows_def localize_row_def example_tz_def example_joined_def)

lemma example_prices:
  "batch_fetch_sp500 (\<lambda>s. Inr 0) example_history [''2024-01-01'']
     = [''2024-01-01'' \<mapsto> Some 5000]"
  by (simp add: batch_fetch_sp500_def fetch_sp500_body_def py_min_def py_max_def
      to_dict_def example_history_def Let_def)

lemma example_weather:
  "batch_fetch_weather example_server [((15, 30), ''2024-01-05'')] \<lparr>calls = [], sleeps = []\<rparr>
     = (Inr [(15, 30, ''2024-01-05'') \<mapsto> \<lparr>mean_temp = Some 22.5, precipitation = Some 0\<rparr>],
        \<lparr>calls = [request_params (15, 30) ''2024-01-05'' ''2024-01-05''], sleeps = []\<rparr>)"
  by (simp add: batch_fetch_weather_def location_groups_def fetch_group_def
      validate_coordinates_def VALID_LAT_RANGE_def VALID_LON_RANGE_def group_params_def
      py_min_def py_max_def retry_request_def upt3 attempt_request_def json_def Let_def
      example_server_def)

lemma example_run:
  "enrich_data example_tz example_strftime (\<lambda>s. Inr 0) example_history example_server
      example_joined \<lparr>calls = [], sleeps = []\<rparr>
     = (Inr [example_enriched],
        \<lparr>calls = [request_params (15, 30) ''2024-01-05'' ''2024-01-05''], sleeps = []\<rparr>)"
  by (simp add: enrich_data_def example_localized purchase_dates_def unique_def
      location_dates_of_def example_strftime_def example_prices example_weather
      enrich_row_def final_fields_present_def example_enriched_def)

text \<open>
  C7. When the merger returns, every output row has its market value and both weather
  readings non-null (the other seven fields cannot be null in rows of this type), and
  the output rows are, in order, exactly the input records that are resolved: both
  timestamps localize under the time zone, the market mapping holds a price for the
  purchase date and the weather mapping holds both readings for the coordinate and
  delivery date. A record with an unresolved lookup or a \<^verbatim>\<open>NaT\<close> timestamp gives no
  output row.
\<close>

theorem enriched_rows_complete:
  assumes "enrich_data tz strftime strptime history srv df w = (Inr out, w')"
  shows "(\<forall>r \<in> set out.
           market_sentiment_on_purchase_date r \<noteq> None \<and>
           delivery_date_mean_temp r \<noteq> None \<and>
           delivery_date_precipitation_sum r \<noteq> None)
     \<and> (\<exists>weather_data.
           batch_fetch_weather srv (location_dates_of strftime (localize_rows tz df)) w
             = (Inr weather_data, w') \<and>
           list_all2 (\<lambda>r d. row_order_id r = row_order_id d \<and> row_seller_id r = row_seller_id d)
             out
             (filter (lookups_resolved tz strftime
                 (batch_fetch_sp500 strptime history (purchase_dates strftime (localize_rows tz df)))
                 weather_data) df))"
proof (rule conjI)
  from enrich_data_rows [OF assms]
  show "\<forall>r \<in> set out.
           market_sentiment_on_purchase_date r \<noteq> None \<and>
           delivery_date_mean_temp r \<noteq> None \<and>
           delivery_date_precipitation_sum r \<noteq> None"
    by (auto simp: final_fields_present_def)
next
  from enrich_data_corr [OF assms] obtain weather_data where
    wd: "batch_fetch_weather srv (location_dates_of strftime (localize_rows tz df)) w
       = (Inr weather_data, w')"
    and corr: "list_all2 (\<lambda>r d. \<exists>y. localize_row tz d = Some y \<and>
          r = enrich_row strftime
               (batch_fetch_sp500 strptime history (purchase_dates strftime (localize_rows tz df)))
               weather_data y)
       out
       (filter (lookups_resolved tz strftime
                 (batch_fetch_sp500 strptime history (purchase_dates strftime (localize_rows tz df)))
                 weather_data) df)"
    by blast
  have "list_all2 (\<lambda>r d. row_order_id r = row_order_id d \<and> row_seller_id r = row_seller_id d)
       out
       (filter (lookups_resolved tz strftime
                 (batch_fetch_sp500 strptime history (purchase_dates strftime (localize_rows tz df)))
                 weather_data) df)"
    using corr
    by (rule list_all2_mono) (auto simp: enrich_row_carried dest: localize_row_Some)
  with wd show "\<exists>weather_data.
           batch_fetch_weather srv (location_dates_of strftime (localize_rows tz df)) w
             = (Inr weather_data, w') \<and>
           list_all2 (\<lambda>r d. row_order_id r = row_order_id d \<and> row_seller_id r = row_seller_id d)
             out
             (filter (lookups_resolved tz strftime
                 (batch_fetch_sp500 strptime history (purchase_dates strftime (localize_rows tz df)))
                 weather_data) df)"
    by blast
qed


theorem enriched_rows_complete_witness:
  "enrich_data example_tz example_strftime (\<lambda>s. Inr 0) example_history example_server
      example_joined \<lparr>calls = [], sleeps = []\<rparr>
     = (Inr [example_enriched],
        \<lparr>calls = [request_params (15, 30) ''2024-01-05'' ''2024-01-05''], sleeps = []\<rparr>)
   \<and> market_sentiment_on_purchase_date example_enriched \<noteq> None
   \<and> delivery_date_mean_temp example_enriched \<noteq> None
   \<and> delivery_date_precipitation_sum example_enriched \<noteq> None
   \<and> length (filter (lookups_resolved example_tz example_strftime
         (batch_fetch_sp500 (\<lambda>s. Inr 0) example_history
            (purchase_dates example_strftime (localize_rows example_tz example_joined)))
         [(15, 30, ''2024-01-05'') \<mapsto> \<lparr>mean_temp = Some 22.5, precipitation = Some 0\<rparr>])
       example_joined) = 1"
proof -
  let ?w' = "\<lparr>calls = [request_params (15, 30) ''2024-01-05'' ''2024-01-05''], sleeps = []\<rparr>"
  let ?sp = "batch_fetch_sp500 (\<lambda>s. Inr 0) example_history
            (purchase_dates example_strftime (localize_rows example_tz example_joined))"
  from enriched_rows_complete [OF example_run]
  have nn: "\<forall>r \<in> set [example_enriched].
           market_sentiment_on_purchase_date r \<noteq> None \<and>
           delivery_date_mean_temp r \<noteq> None \<and>
           delivery_date_precipitation_sum r \<noteq> None"
    and ex: "\<exists>weather_data.
           batch_fetch_weather example_server
             (location_dates_of example_strftime (localize_rows example_tz example_joined))
             \<lparr>calls = [], sleeps = []\<rparr> = (Inr weather_data, ?w') \<and>
           list_all2 (\<lambda>r d. row_order_id r = row_order_id d \<and> row_seller_id r = row_seller_id d)
             [example_enriched]
             (filter (lookups_resolved example_tz example_strftime ?sp weather_data) example_joined)"
    by blast+
  have ld: "location_dates_of example_strftime (localize_rows example_tz example_joined)
      = [((15, 30), ''2024-01-05'')]"
    by (simp add: example_localized location_dates_of_def example_strftime_def)
  from ex obtain weather_data where
    wd: "batch_fetch_weather example_server [((15, 30), ''2024-01-05'')] \<lparr>calls = [], sleeps = []\<rparr>
           = (Inr weather_data, ?w')"
    and la: "list_all2 (\<lambda>r d. row_order_id r = row_order_id d \<and> row_seller_id r = row_seller_id d)
             [example_enriched]
             (filter (lookups_resolved example_tz example_strftime ?sp weather_data) example_joined)"
    unfolding ld by blast
  have "weather_data = [(15, 30, ''2024-01-05'') \<mapsto> \<lparr>mean_temp = Some 22.5, precipitation = Some 0\<rparr>]"
    using wd unfolding example_weather by simp
  then have "length (filter (lookups_resolved example_tz example_strftime ?sp
         [(15, 30, ''2024-01-05'') \<mapsto> \<lparr>mean_temp = Some 22.5, precipitation = Some 0\<rparr>])
       example_joined) = 1"
    using list_all2_lengthD [OF la] by simp
  then show ?thesis using nn example_run by simp
qed

text \<open>
  C10. When the merger returns, its output rows correspond one to one, in order, to a
  subsequence of the joined input: each output row has the order id, seller id, total
  order value, delivery latitude and delivery longitude of its input row, and each of its
  two timestamps is the input row's timestamp localized to the time zone and converted to
  UTC. No row is invented and no join-stage field is altered.
\<close>

theorem enrichment_frame:
  assumes "enrich_data tz strftime strptime history srv df w = (Inr out, w')"
  shows "\<exists>ds. subseq ds df \<and>
     list_all2 (\<lambda>r d.
         row_order_id r = row_order_id d \<and> row_seller_id r = row_seller_id d \<and>
         total_order_value r = total_order_value d \<and>
         delivery_location_latitude r = delivery_location_latitude d \<and>
         delivery_location_longitude r = delivery_location_longitude d \<and>
         tz (row_purchase_timestamp d) = Some (row_purchase_timestamp r) \<and>
         tz (row_delivered_customer_date d) = Some (row_delivered_customer_date r))
       out ds"
proof -
  from enrich_data_corr [OF assms] obtain weather_data where
    corr: "list_all2 (\<lambda>r d. \<exists>y. localize_row tz d = Some y \<and>
          r = enrich_row strftime
               (batch_fetch_sp500 strptime history (purchase_dates strftime (localize_rows tz df)))
               weather_data y)
       out
       (filter (lookups_resolved tz strftime
                 (batch_fetch_sp500 strptime history (purchase_dates strftime (localize_rows tz df)))
                 weather_data) df)"
    by blast
  let ?ds = "filter (lookups_resolved tz strftime
                 (batch_fetch_sp500 strptime history (purchase_dates strftime (localize_rows tz df)))
                 weather_data) df"
  have "subseq ?ds df" by (rule subseq_filter_left)
  moreover have "list_all2 (\<lambda>r d.
         row_order_id r = row_order_id d \<and> row_seller_id r = row_seller_id d \<and>
         total_order_value r = total_order_value d \<and>
         delivery_location_latitude r = delivery_location_latitude d \<and>
         delivery_location_longitude r = delivery_location_longitude d \<and>
         tz (row_purchase_timestamp d) = Some (row_purchase_timestamp r) \<and>
         tz (row_delivered_customer_date d) = Some (row_delivered_customer_date r))
       out ?ds"
    using corr
    by (rule list_all2_mono) (auto simp: enrich_row_carried dest: localize_row_Some)
  ultimately show ?thesis by blast
qed


theorem enrichment_frame_witness:
  "enrich_data example_tz example_strftime (\<lambda>s. Inr 0) example_history example_server
      example_joined \<lparr>calls = [], sleeps = []\<rparr>
     = (Inr [example_enriched],
        \<lparr>calls = [request_params (15, 30) ''2024-01-05'' ''2024-01-05''], sleeps = []\<rparr>)
   \<and> (\<exists>ds. subseq ds example_joined \<and>
         list_all2 (\<lambda>r d.
           row_order_id r = row_order_id d \<and> row_seller_id r = row_seller_id d \<and>
           total_order_value r = total_order_value d \<and>
           delivery_location_latitude r = delivery_location_latitude d \<and>
           delivery_location_longitude r = delivery_location_longitude d \<and>
           example_tz (row_purchase_timestamp d) = Some (row_purchase_timestamp r) \<and>
           example_tz (row_delivered_customer_date d) = Some (row_delivered_customer_date r))
         [example_enriched] ds)"
  using enrichment_frame [OF example_run] example_run by blast


section \<open>Properties of the pipeline\<close>

lemma example_resolved:
  "process_geolocations example_geolocations = example_geo_processed"
  by (simp add: process_geolocations_def groupby_zip_def agg_group_def samples_of_def mean_def
      validate_coordinates_def VALID_LAT_RANGE_def VALID_LON_RANGE_def
      example_geolocations_def example_geo_processed_def)

lemma example_join:
  "join_olist_data () example_orders example_order_items example_geo_processed example_customers
     = [\<lparr>row_order_id = ''o1'', row_seller_id = ''s1'', row_purchase_timestamp = 100,
         row_delivered_customer_date = 200, total_order_value = 66,
         delivery_location_latitude = 15, delivery_location_longitude = 30\<rparr>]"
  by (simp add: join_olist_data_def merge_geo_def merge_customers_def order_agg_def combinations_def
  merge_orders_def group_key_of_def group_total_def dropna_required_def
  example_order_items_def example_orders_def example_customers_def example_geo_processed_def
      sum_skipna_def total_price_def)


lemma example_enrich_fails:
  "fst (enrich_data example_tz example_strftime (\<lambda>s. Inr 0) example_history
          (\<lambda>p k. Responds \<lparr>status_code = 200, content = Malformed\<rparr>)
          [\<lparr>row_order_id = ''o1'', row_seller_id = ''s1'', row_purchase_timestamp = 100,
            row_delivered_customer_date = 200, total_order_value = 66,
            delivery_location_latitude = 15, delivery_location_longitude = 30\<rparr>]
          \<lparr>calls = [], sleeps = []\<rparr>) = Inl JSONDecodeError"
  by (simp add: enrich_data_def localize_rows_def localize_row_def example_tz_def
      location_dates_of_def example_strftime_def
      batch_fetch_weather_def location_groups_def fetch_group_def
      validate_coordinates_def VALID_LAT_RANGE_def VALID_LON_RANGE_def group_params_def
      py_min_def py_max_def retry_request_def upt3 attempt_request_def json_def Let_def)

lemma example_enrich_succeeds:
  "fst (enrich_data example_tz example_strftime (\<lambda>s. Inr 0) example_history example_server
          [\<lparr>row_order_id = ''o1'', row_seller_id = ''s1'', row_purchase_timestamp = 100,
            row_delivered_customer_date = 200, total_order_value = 66,
            delivery_location_latitude = 15, delivery_location_longitude = 30\<rparr>]
          \<lparr>calls = [], sleeps = []\<rparr>) = Inr [example_enriched]"
  by (simp add: enrich_data_def localize_rows_def localize_row_def example_tz_def
      location_dates_of_def example_strftime_def purchase_dates_def
      unique_def example_prices example_weather enrich_row_def final_fields_present_def
      example_enriched_def)

text \<open>
  C9. Whichever stage of the pipeline raises first (loading, coordinate processing,
  joining, enrichment or output), the run stops there and \<^verbatim>\<open>main\<close> raises that same
  exception: the handler of line 351 logs it and raises it again. For \<^verbatim>\<open>main\<close> with
  its own stages this is a failed load, an exception leaving \<^verbatim>\<open>enrich_data\<close>, and a
  failed write.
\<close>

theorem main_reraises:
  "(load = Inl e \<longrightarrow> run_main load geo join enrich to_csv = Inl e)
   \<and> (load = Inr frames \<and> geo frames = Inl e \<longrightarrow> run_main load geo join enrich to_csv = Inl e)
   \<and> (load = Inr frames \<and> geo frames = Inr geo_processed \<and> join frames geo_processed = Inl e
        \<longrightarrow> run_main load geo join enrich to_csv = Inl e)
   \<and> (load = Inr frames \<and> geo frames = Inr geo_processed
        \<and> join frames geo_processed = Inr joined_data \<and> enrich joined_data = Inl e
        \<longrightarrow> run_main load geo join enrich to_csv = Inl e)
   \<and> (load = Inr frames \<and> geo frames = Inr geo_processed
        \<and> join frames geo_processed = Inr joined_data \<and> enrich joined_data = Inr enriched_data
        \<and> to_csv enriched_data = Inl e
        \<longrightarrow> run_main load geo join enrich to_csv = Inl e)
   \<and> (load_olist_data = Inl e
        \<longrightarrow> main load_olist_data write_csv tz strftime strptime history srv w = Inl e)
   \<and> (load_olist_data = Inr (sellers, orders, order_items, geolocations, customers)
        \<and> fst (enrich_data tz strftime strptime history srv
                 (join_olist_data sellers orders order_items
                    (process_geolocations geolocations) customers) w) = Inl e
        \<longrightarrow> main load_olist_data write_csv tz strftime strptime history srv w = Inl e)
   \<and> (load_olist_data = Inr (sellers, orders, order_items, geolocations, customers)
        \<and> fst (enrich_data tz strftime strptime history srv
                 (join_olist_data sellers orders order_items
                    (process_geolocations geolocations) customers) w) = Inr enriched
        \<and> write_csv enriched = Inl e
        \<longrightarrow> main load_olist_data write_csv tz strftime strptime history srv w = Inl e)"
  by (simp add: main_def run_main_def main_body_def)


theorem main_reraises_witness:
  "run_main (Inl ValueError :: error + unit) (\<lambda>a. Inr ()) (\<lambda>a g. Inr ()) (\<lambda>j. Inr ())
       (\<lambda>u :: unit. Inr ()) = Inl ValueError
   \<and> run_main (Inr ()) (\<lambda>a. Inl KeyError :: error + unit) (\<lambda>a g. Inr ()) (\<lambda>j. Inr ())
       (\<lambda>u :: unit. Inr ()) = Inl KeyError
   \<and> run_main (Inr ()) (\<lambda>a. Inr ()) (\<lambda>a g. Inl IndexError :: error + unit) (\<lambda>j. Inr ())
       (\<lambda>u :: unit. Inr ()) = Inl IndexError
   \<and> run_main (Inr ()) (\<lambda>a. Inr ()) (\<lambda>a g. Inr ()) (\<lambda>j. Inl JSONDecodeError :: error + unit)
       (\<lambda>u. Inr ()) = Inl JSONDecodeError
   \<and> run_main (Inr ()) (\<lambda>a. Inr ()) (\<lambda>a g. Inr ()) (\<lambda>j. Inr ())
       (\<lambda>u :: unit. Inl (SourceError ''disk full'')) = Inl (SourceError ''disk full'')
   \<and> main (Inl (SourceError ''no such file'') :: error + unit frames) (\<lambda>rows. Inr ())
       example_tz example_strftime (\<lambda>s. Inr 0) example_history example_server
       \<lparr>calls = [], sleeps = []\<rparr> = Inl (SourceError ''no such file'')
   \<and> main (Inr ((), example_orders, example_order_items, example_geolocations,
               example_customers)) (\<lambda>rows. Inr ())
       example_tz example_strftime (\<lambda>s. Inr 0) example_history
       (\<lambda>p k. Responds \<lparr>status_code = 200, content = Malformed\<rparr>)
       \<lparr>calls = [], sleeps = []\<rparr> = Inl JSONDecodeError
   \<and> main (Inr ((), example_orders, example_order_items, example_geolocations,
               example_customers)) (\<lambda>rows. Inl (SourceError ''disk full''))
       example_tz example_strftime (\<lambda>s. Inr 0) example_history example_server
       \<lparr>calls = [], sleeps = []\<rparr> = Inl (SourceError ''disk full'')"
proof -
  let ?ok = "\<lambda>u :: unit. Inr () :: error + unit"
  let ?ok2 = "\<lambda>(a :: unit) (g :: unit). Inr () :: error + unit"
  let ?w = "\<lparr>calls = [], sleeps = []\<rparr>"
  let ?frames = "((), example_orders, example_order_items, example_geolocations, example_customers)"
  have c1: "run_main (Inl ValueError) ?ok ?ok2 ?ok ?ok = Inl ValueError"
    using main_reraises [where load = "Inl ValueError :: error + unit" and e = ValueError
        and geo = ?ok and join = ?ok2 and enrich = ?ok and to_csv = ?ok,
        THEN conjunct1]
    by simp
  have c2: "run_main (Inr ()) (\<lambda>a. Inl KeyError :: error + unit) ?ok2 ?ok ?ok = Inl KeyError"
    using main_reraises [where load = "Inr () :: error + unit" and e = KeyError and frames = "()"
        and geo = "\<lambda>a. Inl KeyError :: error + unit" and join = ?ok2 and enrich = ?ok
        and to_csv = ?ok,
        THEN conjunct2, THEN conjunct1]
    by simp
  have c3: "run_main (Inr ()) ?ok (\<lambda>a g. Inl IndexError :: error + unit) ?ok ?ok = Inl IndexError"
    using main_reraises [where load = "Inr () :: error + unit" and e = IndexError
        and frames = "()" and geo_processed = "()"
        and geo = ?ok and join = "\<lambda>(a :: unit) (g :: unit). Inl IndexError :: error + unit"
        and enrich = ?ok and to_csv = ?ok,
        THEN conjunct2, THEN conjunct2,
        THEN conjunct1]
    by simp
  have c4: "run_main (Inr ()) ?ok ?ok2 (\<lambda>j. Inl JSONDecodeError :: error + unit) ?ok
      = Inl JSONDecodeError"
    using main_reraises [where load = "Inr () :: error + unit" and e = JSONDecodeError
        and frames = "()" and geo_processed = "()" and joined_data = "()"
        and geo = ?ok and join = ?ok2
        and enrich = "\<lambda>j :: unit. Inl JSONDecodeError :: error + unit" and to_csv = ?ok,
        THEN conjunct2, THEN conjunct2,
        THEN conjunct2, THEN conjunct1]
    by simp
  have c5: "run_main (Inr ()) ?ok ?ok2 ?ok (\<lambda>u :: unit. Inl (SourceError ''disk full''))
      = Inl (SourceError ''disk full'')"
    using main_reraises [where load = "Inr () :: error + unit" and e = "SourceError ''disk full''"
        and frames = "()" and geo_processed = "()" and joined_data = "()"
        and enriched_data = "()" and geo = ?ok and join = ?ok2 and enrich = ?ok
        and to_csv = "\<lambda>u :: unit. Inl (SourceError ''disk full'')",
        THEN conjunct2, THEN conjunct2,
        THEN conjunct2, THEN conjunct2,
        THEN conjunct1]
    by simp
  have c6: "main (Inl (SourceError ''no such file'') :: error + unit frames) (\<lambda>rows. Inr ())
       example_tz example_strftime (\<lambda>s. Inr 0) example_history example_server ?w
      = Inl (SourceError ''no such file'')"
    using main_reraises [where load_olist_data = "Inl (SourceError ''no such file'') :: error + unit frames"
        and e = "SourceError ''no such file''" and write_csv = "\<lambda>rows. Inr ()"
        and tz = example_tz and strftime = example_strftime and strptime = "\<lambda>s. Inr 0"
        and history = example_history and srv = example_server and w = ?w,
        THEN conjunct2, THEN conjunct2,
        THEN conjunct2, THEN conjunct2,
        THEN conjunct2, THEN conjunct1]
    by simp
  have c7: "main (Inr ?frames) (\<lambda>rows. Inr ())
       example_tz example_strftime (\<lambda>s. Inr 0) example_history
       (\<lambda>p k. Responds \<lparr>status_code = 200, content = Malformed\<rparr>) ?w = Inl JSONDecodeError"
    using main_reraises [where load_olist_data = "Inr ?frames"
        and sellers = "()" and orders = example_orders and order_items = example_order_items
        and geolocations = example_geolocations and customers = example_customers
        and e = JSONDecodeError and write_csv = "\<lambda>rows. Inr ()"
        and tz = example_tz and strftime = example_strftime and strptime = "\<lambda>s. Inr 0"
        and history = example_history
        and srv = "\<lambda>p k. Responds \<lparr>status_code = 200, content = Malformed\<rparr>" and w = ?w,
        THEN conjunct2, THEN conjunct2,
        THEN conjunct2, THEN conjunct2,
        THEN conjunct2, THEN conjunct2,
        THEN conjunct1]
    by (simp add: example_resolved example_join example_enrich_fails)
  have c8: "main (Inr ?frames) (\<lambda>rows. Inl (SourceError ''disk full''))
       example_tz example_strftime (\<lambda>s. Inr 0) example_history example_server ?w
      = Inl (SourceError ''disk full'')"
    using main_reraises [where load_olist_data = "Inr ?frames"
        and sellers = "()" and orders = example_orders and order_items = example_order_items
        and geolocations = example_geolocations and customers = example_customers
        and e = "SourceError ''disk full''" and write_csv = "\<lambda>rows. Inl (SourceError ''disk full'')"
        and enriched = "[example_enriched]"
        and tz = example_tz and strftime = example_strftime and strptime = "\<lambda>s. Inr 0"
        and history = example_history and srv = example_server and w = ?w,
        THEN conjunct2, THEN conjunct2,
        THEN conjunct2, THEN conjunct2,
        THEN conjunct2, THEN conjunct2,
        THEN conjunct2]
    by (simp add: example_resolved example_join example_enrich_succeeds)
  from c1 c2 c3 c4 c5 c6 c7 c8 show ?thesis by blast
qed


end
